theory Spec2Isabelle
  imports Main
begin

section \<open>Python strings\<close>

text \<open>
  The program is \<^verbatim>\<open>gptme/tools/__init__.py\<close>. Its strings are Python \<^verbatim>\<open>str\<close>
  values; they are modelled as \<^typ>\<open>string\<close>, one \<^typ>\<open>char\<close> per code point, for
  the code points below 256. The string methods the program calls are written out
  below for that range, following the CPython documentation.
\<close>

definition py_isspace :: "char \<Rightarrow> bool" where
  \<comment> \<open>\<^verbatim>\<open>str.isspace\<close> on one character: TAB, LF, VT, FF, CR, FS, GS, RS, US, space, NEL, NBSP.\<close>
  "py_isspace c =
     (let n = (of_char c :: nat)
      in (9 \<le> n \<and> n \<le> 13) \<or> (28 \<le> n \<and> n \<le> 32) \<or> n = 133 \<or> n = 160)"

definition strip :: "string \<Rightarrow> string" where
  "strip s = rev (dropWhile py_isspace (rev (dropWhile py_isspace s)))"

definition startswith :: "string \<Rightarrow> string \<Rightarrow> bool" where
  "startswith s p = (take (length p) s = p)"

definition endswith :: "string \<Rightarrow> string \<Rightarrow> bool" where
  "endswith s p = (length p \<le> length s \<and> drop (length s - length p) s = p)"

definition py_isupper :: "char \<Rightarrow> bool" where
  \<comment> \<open>the characters below 256 that \<^verbatim>\<open>str.lower\<close> changes: A-Z and the Latin-1 capitals\<close>
  "py_isupper c =
     (let n = (of_char c :: nat)
      in (65 \<le> n \<and> n \<le> 90) \<or> (192 \<le> n \<and> n \<le> 222 \<and> n \<noteq> 215))"

fun lower_char :: "char \<Rightarrow> char" where
  \<comment> \<open>in that range the lower-case letter is the capital plus 32, that is with bit 5 set\<close>
  "lower_char (Char b0 b1 b2 b3 b4 b5 b6 b7) =
     (if py_isupper (Char b0 b1 b2 b3 b4 b5 b6 b7) then Char b0 b1 b2 b3 b4 True b6 b7
      else Char b0 b1 b2 b3 b4 b5 b6 b7)"

definition py_lower :: "string \<Rightarrow> string" where
  "py_lower s = map lower_char s"

definition is_linebreak :: "char \<Rightarrow> bool" where
  \<comment> \<open>the line boundaries of \<^verbatim>\<open>str.splitlines\<close> below 256: LF, VT, FF, CR, FS, GS, RS, NEL\<close>
  "is_linebreak c =
     (let n = (of_char c :: nat)
      in (10 \<le> n \<and> n \<le> 13) \<or> (28 \<le> n \<and> n \<le> 30) \<or> n = 133)"

fun splitlines_from :: "string \<Rightarrow> string \<Rightarrow> string list" where
  \<comment> \<open>\<^verbatim>\<open>acc\<close> is the line read so far; CR LF counts as one boundary\<close>
  "splitlines_from acc [] = (if acc = [] then [] else [acc])"
| "splitlines_from acc [c] = (if is_linebreak c then [acc] else [acc @ [c]])"
| "splitlines_from acc (c # d # cs) =
     (if c = CHR 0x0D \<and> d = CHR 0x0A then acc # splitlines_from [] cs
      else if is_linebreak c then acc # splitlines_from [] (d # cs)
      else splitlines_from (acc @ [c]) (d # cs))"

definition splitlines :: "string \<Rightarrow> string list" where
  "splitlines s = splitlines_from [] s"

fun keepends_from :: "string \<Rightarrow> string \<Rightarrow> string list" where
  \<comment> \<open>\<^verbatim>\<open>str.splitlines(True)\<close>: each line keeps its boundary\<close>
  "keepends_from acc [] = (if acc = [] then [] else [acc])"
| "keepends_from acc [c] = [acc @ [c]]"
| "keepends_from acc (c # d # cs) =
     (if c = CHR 0x0D \<and> d = CHR 0x0A then (acc @ [c, d]) # keepends_from [] cs
      else if is_linebreak c then (acc @ [c]) # keepends_from [] (d # cs)
      else keepends_from (acc @ [c]) (d # cs))"

fun split_from :: "char \<Rightarrow> string \<Rightarrow> string \<Rightarrow> string list" where
  "split_from sep acc [] = [acc]"
| "split_from sep acc (c # cs) =
     (if c = sep then acc # split_from sep [] cs else split_from sep (acc @ [c]) cs)"

definition split :: "string \<Rightarrow> char \<Rightarrow> string list" where
  \<comment> \<open>\<^verbatim>\<open>str.split(sep)\<close> for a separator of one character\<close>
  "split s sep = split_from sep [] s"

fun join :: "string \<Rightarrow> string list \<Rightarrow> string" where
  "join sep [] = []"
| "join sep [x] = x"
| "join sep (x # y # ys) = x @ sep @ join sep (y # ys)"

definition indent :: "string \<Rightarrow> string \<Rightarrow> string" where
  \<comment> \<open>\<^verbatim>\<open>textwrap.indent(text, prefix)\<close>: the prefix goes before every line that is not blank\<close>
  "indent text pre =
     concat (map (\<lambda>l. if strip l \<noteq> [] then pre @ l else l) (keepends_from [] text))"

fun str_of_nat :: "nat \<Rightarrow> string" where
  "str_of_nat n =
     (if n < 10 then [''0123456789'' ! n]
      else str_of_nat (n div 10) @ [''0123456789'' ! (n mod 10)])"

declare str_of_nat.simps [simp del]

definition str_of_int :: "int \<Rightarrow> string" where
  \<comment> \<open>\<^verbatim>\<open>str(n)\<close> for an \<^verbatim>\<open>int\<close>\<close>
  "str_of_int i = (if i < 0 then CHR ''-'' # str_of_nat (nat (- i)) else str_of_nat (nat i))"

section \<open>Messages, exceptions and the world the program runs in\<close>

datatype message = Message (role: string) (content: string)

text \<open>
  A raised exception is its class name and \<^verbatim>\<open>str(e)\<close>. \<open>Error\<close> is an instance of
  \<^verbatim>\<open>Exception\<close>, which \<^verbatim>\<open>except Exception\<close> catches; \<open>Exit\<close> is one of the other
  subclasses of \<^verbatim>\<open>BaseException\<close> (\<^verbatim>\<open>SystemExit\<close>, \<^verbatim>\<open>KeyboardInterrupt\<close>), which it
  does not catch.
\<close>

datatype exn = Error string string | Exit string string

datatype node = File string | Dir

datatype tty_event = Printed string | Prompted string

text \<open>
  The state outside the program: the lines still to be read from standard input, what
  has been written to the terminal (each \<^verbatim>\<open>print\<close> and each prompt of \<^verbatim>\<open>input\<close>, in
  order), the file system, and the module dictionary \<^verbatim>\<open>locals_\<close> that \<^verbatim>\<open>exec\<close> and
  \<^verbatim>\<open>eval\<close> work on (the program takes it once, at import, with \<^verbatim>\<open>locals()\<close>).
  File permissions and missing parent directories are not modelled.
\<close>

record 'v world =
  stdin :: "string list"
  tty :: "tty_event list"
  files :: "string \<rightharpoonup> node"
  locals_env :: "string \<rightharpoonup> 'v"

definition print :: "string \<Rightarrow> 'v world \<Rightarrow> 'v world" where
  "print s w = w\<lparr>tty := tty w @ [Printed s]\<rparr>"

definition input :: "string \<Rightarrow> 'v world \<Rightarrow> exn \<times> 'v world + string \<times> 'v world" where
  \<comment> \<open>\<^verbatim>\<open>input(prompt)\<close> writes the prompt, then reads a line or raises \<^verbatim>\<open>EOFError\<close>\<close>
  "input prompt w =
     (let w' = w\<lparr>tty := tty w @ [Prompted prompt]\<rparr>
      in case stdin w of
           [] \<Rightarrow> Inl (Error ''EOFError'' ''EOF when reading a line'', w')
         | l # ls \<Rightarrow> Inr (l, w'\<lparr>stdin := ls\<rparr>))"

definition path_exists :: "'v world \<Rightarrow> string \<Rightarrow> bool" where
  "path_exists w p = (files w p \<noteq> None)"

definition read_file :: "'v world \<Rightarrow> string \<Rightarrow> exn + string" where
  \<comment> \<open>\<^verbatim>\<open>open(p, "r")\<close> and \<^verbatim>\<open>file.read()\<close>\<close>
  "read_file w p =
     (case files w p of
        None \<Rightarrow> Inl (Error ''FileNotFoundError''
                  (''[Errno 2] No such file or directory: '' @ [CHR 0x27] @ p @ [CHR 0x27]))
      | Some Dir \<Rightarrow> Inl (Error ''IsADirectoryError''
                  (''[Errno 21] Is a directory: '' @ [CHR 0x27] @ p @ [CHR 0x27]))
      | Some (File d) \<Rightarrow> Inr d)"

definition write_file :: "'v world \<Rightarrow> string \<Rightarrow> string \<Rightarrow> exn + 'v world" where
  \<comment> \<open>\<^verbatim>\<open>open(p, "w")\<close> and \<^verbatim>\<open>file.write(d)\<close>\<close>
  "write_file w p d =
     (if p = [] then Inl (Error ''FileNotFoundError''
                  (''[Errno 2] No such file or directory: '' @ [CHR 0x27, CHR 0x27]))
      else if files w p = Some Dir then Inl (Error ''IsADirectoryError''
                  (''[Errno 21] Is a directory: '' @ [CHR 0x27] @ p @ [CHR 0x27]))
      else Inr (w\<lparr>files := (files w)(p \<mapsto> File d)\<rparr>))"

text \<open>
  The program's functions are generators. A run of one, consumed to its end, is the list
  of messages it yielded, the exception that ended it (if one did) and the world it left.
\<close>

datatype 'v run = Run (replies: "message list") (raised: "exn option") (after: "'v world")

section \<open>What the program calls but does not define\<close>

datatype stmt_class =
    FunctionDef | AsyncFunctionDef | ClassDef | Return | Delete | Assign | AugAssign
  | AnnAssign | For | AsyncFor | While | If | With | AsyncWith | Match | Raise | Try
  | TryStar | Assert | Import | ImportFrom | Global | Nonlocal | Expr | Pass | Break
  | Continue

datatype 's parsed = Parsed "'s list" | SyntaxErr string | ParseCrash exn

datatype 'a outcome = Returned 'a | Raised exn

record completed =
  stdout :: string
  stderr :: string
  returncode :: int

text \<open>
  The library functions the program calls are parameters of the model:
  \<^verbatim>\<open>termcolor.colored\<close> (text, colour, background or the empty string, attributes),
  \<^verbatim>\<open>subprocess.run(cmd, capture_output=True, shell=True, text=True)\<close>,
  \<^verbatim>\<open>ast.parse(code).body\<close> (\<open>SyntaxErr\<close> carries \<^verbatim>\<open>str(e)\<close> of a \<^verbatim>\<open>SyntaxError\<close>),
  \<^verbatim>\<open>ast.unparse\<close>, the class of a statement node (one constructor of
  \<^typ>\<open>stmt_class\<close> for each subclass of \<^verbatim>\<open>ast.stmt\<close>), \<^verbatim>\<open>exec\<close> under
  \<^verbatim>\<open>redirect_stdout\<close> (it returns \<^verbatim>\<open>buf.getvalue()\<close> beside the outcome),
  \<^verbatim>\<open>eval\<close> (whatever it prints goes to the terminal of the world it returns),
  and the truth test \<^verbatim>\<open>if result:\<close> and \<^verbatim>\<open>str(result)\<close> on the value \<^verbatim>\<open>eval\<close>
  returned: they run the value's \<^verbatim>\<open>__bool__\<close> and \<^verbatim>\<open>__str__\<close> and look \<^verbatim>\<open>str\<close> up
  in the module dictionary, so they depend on the world, can change it and can raise.
  \<open>'s\<close> is the type of statement nodes, \<open>'v\<close> the type of Python values.
\<close>

record ('s, 'v) runtime =
  colored :: "string \<Rightarrow> string \<Rightarrow> string \<Rightarrow> string list \<Rightarrow> string"
  subprocess_run :: "string \<Rightarrow> 'v world \<Rightarrow> completed \<times> 'v world"
  ast_parse :: "string \<Rightarrow> 's parsed"
  ast_unparse :: "'s \<Rightarrow> string"
  node_class :: "'s \<Rightarrow> stmt_class"
  py_exec :: "string \<Rightarrow> 'v world \<Rightarrow> (unit outcome \<times> string) \<times> 'v world"
  py_eval :: "string \<Rightarrow> 'v world \<Rightarrow> 'v outcome \<times> 'v world"
  py_bool :: "'v \<Rightarrow> 'v world \<Rightarrow> bool outcome \<times> 'v world"
  py_str :: "'v \<Rightarrow> 'v world \<Rightarrow> string outcome \<times> 'v world"

section \<open>The program\<close>

definition EMOJI_WARN :: string where
  \<comment> \<open>U+26A0 U+FE0F, the one text of the program above code point 255, as its UTF-8 bytes\<close>
  "EMOJI_WARN = [CHR 0xE2, CHR 0x9A, CHR 0xA0, CHR 0xEF, CHR 0xB8, CHR 0x8F]"

definition print_preview :: "('s, 'v) runtime \<Rightarrow> 'v world \<Rightarrow> 'v world" where
  "print_preview rt w = print (colored rt ''Preview'' ''white'' [] [''bold'']) w"

definition execute_shell :: "('s, 'v) runtime \<Rightarrow> string \<Rightarrow> bool \<Rightarrow> 'v world \<Rightarrow> 'v run" where
  "execute_shell rt cmd0 ask w =
     (let cmd1 = strip cmd0;
          cmd = (if startswith cmd1 ''$ '' then drop (length ''$ '') cmd1 else cmd1)
      in case (if ask
               then input (colored rt (EMOJI_WARN @ '' Execute command in terminal? (Y/n) '')
                             ''red'' ''on_light_yellow'' [])
                      (print (''$ '' @ colored rt cmd ''light_yellow'' [] [])
                         (print_preview rt w))
               else Inr ([], w)) of
           Inl (e, w1) \<Rightarrow> Run [] (Some e) w1
         | Inr (confirm, w1) \<Rightarrow>
             if \<not> ask \<or> py_lower confirm \<in> set [''y'', ''Y'', [], ''yes'']
             then (let (p, w2) = subprocess_run rt cmd w1;
                       out = strip (stdout p);
                       err = strip (stderr p);
                       msg = ''Ran command:\<newline>```bash\<newline>'' @ cmd @ ''\<newline>```\<newline>\<newline>'';
                       msg = (if out \<noteq> []
                              then msg @ ''Output:\<newline>\<newline>```bash\<newline>'' @ out @ ''\<newline>```\<newline>\<newline>''
                              else msg);
                       msg = (if err \<noteq> []
                              then msg @ ''Error:\<newline>\<newline>```bash\<newline>'' @ err @ ''\<newline>```\<newline>\<newline>''
                              else msg);
                       msg = (if out = [] \<and> err = [] then msg @ ''No output\<newline>\<newline>'' else msg);
                       msg = (if returncode p \<noteq> 0
                              then msg @ ''Return code: '' @ str_of_int (returncode p)
                              else msg @ ''Ran successfully'')
                   in Run [Message ''system'' msg] None w2)
             else Run [] None w1)"

definition save_codeblock ::
  "('s, 'v) runtime \<Rightarrow> string \<Rightarrow> string \<Rightarrow> 'v world \<Rightarrow> 'v run" where
  \<comment> \<open>the body of \<^verbatim>\<open>if line.strip().startswith("// save:")\<close> in \<^verbatim>\<open>_execute_save\<close>;
      \<^verbatim>\<open>xs[1]\<close> raises \<^verbatim>\<open>IndexError\<close> on a list shorter than two, and \<^verbatim>\<open>xs[1:-2]\<close>
      is the elements from index 1 up to, not including, the last two\<close>
  "save_codeblock rt line prev_codeblock w =
     (case split line (CHR '':'') of
        _ # piece # _ \<Rightarrow>
          (let filename = strip piece;
               ps = split prev_codeblock (CHR 0x0A);
               content = join ''\<newline>'' (drop 1 (take (length ps - 2) ps));
               w1 = print_preview rt w;
               w2 = print (''# filename: '' @ filename) w1;
               w3 = print (indent content ''> '') w2
           in case input (''Save to '' @ filename @ ''? (Y/n) '') w3 of
                Inl (e, w4) \<Rightarrow> Run [] (Some e) w4
              | Inr (confirm, w4) \<Rightarrow>
                  if py_lower confirm \<in> set [''y'', ''Y'', [], ''yes'']
                  then (case write_file w4 filename content of
                          Inl e \<Rightarrow> Run [] (Some e) w4
                        | Inr w5 \<Rightarrow> Run [Message ''system'' (''Saved to '' @ filename)] None w5)
                  else Run [Message ''system'' (''Saved to '' @ filename)] None w4)
      | _ \<Rightarrow> Run [] (Some (Error ''IndexError'' ''list index out of range'')) w)"

definition scan_codeblock :: "string \<Rightarrow> string \<Rightarrow> string \<Rightarrow> string \<times> string" where
  \<comment> \<open>the body of \<^verbatim>\<open>if line.startswith("```") or codeblock\<close> in \<^verbatim>\<open>_execute_save\<close>:
      the new values of \<^verbatim>\<open>prev_codeblock\<close> and \<^verbatim>\<open>codeblock\<close>\<close>
  "scan_codeblock line prev_codeblock codeblock =
     (if startswith line ''```'' \<or> codeblock \<noteq> []
      then (let cb = codeblock @ line @ ''\<newline>''
            in if startswith cb ''```'' \<and> endswith (strip cb) ''```''
               then (cb, []) else (prev_codeblock, cb))
      else (prev_codeblock, codeblock))"

fun save_lines ::
  "('s, 'v) runtime \<Rightarrow> string list \<Rightarrow> string \<Rightarrow> string \<Rightarrow> 'v world \<Rightarrow> 'v run" where
  \<comment> \<open>the loop of \<^verbatim>\<open>_execute_save\<close> over the lines, with its two variables\<close>
  "save_lines rt [] prev_codeblock codeblock w = Run [] None w"
| "save_lines rt (line # ls) prev_codeblock codeblock w =
     (case (if startswith (strip line) ''// save:''
            then save_codeblock rt line prev_codeblock w
            else Run [] None w) of
        Run ms (Some e) w1 \<Rightarrow> Run ms (Some e) w1
      | Run ms None w1 \<Rightarrow>
          (case scan_codeblock line prev_codeblock codeblock of
             (prev', codeblock') \<Rightarrow>
               (case save_lines rt ls prev' codeblock' w1 of
                  Run ms' r w2 \<Rightarrow> Run (ms @ ms') r w2)))"

definition execute_save :: "('s, 'v) runtime \<Rightarrow> string \<Rightarrow> 'v world \<Rightarrow> 'v run" where
  "execute_save rt text w = save_lines rt (splitlines text) [] [] w"

definition execute_load :: "string \<Rightarrow> 'v world \<Rightarrow> 'v run" where
  \<comment> \<open>there is no \<^verbatim>\<open>return\<close> after the first \<^verbatim>\<open>yield\<close>: the prompt follows in both cases\<close>
  "execute_load filename w =
     (let ms = (if \<not> path_exists w filename
                then [Message ''system''
                        (''Tried to load file '' @ [CHR 0x27] @ filename @ [CHR 0x27]
                           @ '', but it does not exist.'')]
                else [])
      in case input (''Load from '' @ filename @ ''? (Y/n) '') w of
           Inl (e, w1) \<Rightarrow> Run ms (Some e) w1
         | Inr (confirm, w1) \<Rightarrow>
             if py_lower confirm \<in> set [''y'', ''Y'', [], ''yes'']
             then (case read_file w1 filename of
                     Inl e \<Rightarrow> Run ms (Some e) w1
                   | Inr data \<Rightarrow>
                       Run (ms @ [Message ''system''
                                    (''# filename: '' @ filename @ ''\<newline>\<newline>'' @ data)]) None w1)
             else Run ms None w1)"

definition uses_exec :: "stmt_class \<Rightarrow> bool" where
  \<comment> \<open>the chain of \<^verbatim>\<open>isinstance\<close> tests in \<^verbatim>\<open>_execute_python\<close>, in its order\<close>
  "uses_exec c =
     (c = Assign \<or> c = AnnAssign \<or> c = Assert \<or> c = ClassDef \<or> c = FunctionDef
      \<or> c = Import \<or> c = ImportFrom \<or> c = If \<or> c = For \<or> c = While \<or> c = With
      \<or> c = Try \<or> c = AsyncFor \<or> c = AsyncFunctionDef \<or> c = AsyncWith)"

text \<open>
  The loop over the statements returns the transcript \<^verbatim>\<open>output\<close>, the flag
  \<^verbatim>\<open>error_during_execution\<close>, an exception that \<^verbatim>\<open>except Exception\<close> did not catch,
  and the world. What \<^verbatim>\<open>exec\<close> printed before it raised is lost with the buffer.
  Under \<^verbatim>\<open>exec\<close> the result is the captured text, a \<^verbatim>\<open>str\<close>, whose truth test and
  \<^verbatim>\<open>str\<close> cannot raise; under \<^verbatim>\<open>eval\<close> it is any value, and \<^verbatim>\<open>if result:\<close> and
  \<^verbatim>\<open>str(result)\<close> stand inside the \<^verbatim>\<open>try\<close>, so what they raise is reported like
  a failure of the statement.
\<close>

fun run_statements ::
  "('s, 'v) runtime \<Rightarrow> 's list \<Rightarrow> string \<Rightarrow> 'v world \<Rightarrow> string \<times> bool \<times> exn option \<times> 'v world"
  where
  "run_statements rt [] output w = (output, False, None, w)"
| "run_statements rt (stmt # rest) output w =
     (let stmt_str = ast_unparse rt stmt;
          output = output @ ''>>> '' @ stmt_str @ ''\<newline>''
      in if uses_exec (node_class rt stmt)
         then (case py_exec rt stmt_str w of
                 ((Returned _, buf), w1) \<Rightarrow>
                   (let result = strip buf
                    in run_statements rt rest
                         (if result \<noteq> [] then output @ result @ ''\<newline>'' else output) w1)
               | ((Raised (Error cls m), _), w1) \<Rightarrow>
                   (output @ cls @ '': '' @ m @ ''\<newline>'', True, None, w1)
               | ((Raised (Exit cls m), _), w1) \<Rightarrow> (output, False, Some (Exit cls m), w1))
         else (case py_eval rt stmt_str w of
                 (Returned result, w1) \<Rightarrow>
                   (case py_bool rt result w1 of
                      (Returned False, w2) \<Rightarrow> run_statements rt rest output w2
                    | (Returned True, w2) \<Rightarrow>
                        (case py_str rt result w2 of
                           (Returned shown, w3) \<Rightarrow>
                             run_statements rt rest (output @ shown @ ''\<newline>'') w3
                         | (Raised (Error cls m), w3) \<Rightarrow>
                             (output @ cls @ '': '' @ m @ ''\<newline>'', True, None, w3)
                         | (Raised (Exit cls m), w3) \<Rightarrow>
                             (output, False, Some (Exit cls m), w3))
                    | (Raised (Error cls m), w2) \<Rightarrow>
                        (output @ cls @ '': '' @ m @ ''\<newline>'', True, None, w2)
                    | (Raised (Exit cls m), w2) \<Rightarrow> (output, False, Some (Exit cls m), w2))
               | (Raised (Error cls m), w1) \<Rightarrow>
                   (output @ cls @ '': '' @ m @ ''\<newline>'', True, None, w1)
               | (Raised (Exit cls m), w1) \<Rightarrow> (output, False, Some (Exit cls m), w1)))"

definition execute_python :: "('s, 'v) runtime \<Rightarrow> string \<Rightarrow> bool \<Rightarrow> 'v world \<Rightarrow> 'v run" where
  "execute_python rt code0 ask w =
     (let code = strip code0
      in case (if ask
               then input (colored rt ('' '' @ EMOJI_WARN @ '' Execute Python code? (y/N) '')
                             ''red'' ''on_light_yellow'' [''bold''])
                      (print (''>>> '' @ colored rt code ''light_yellow'' [] [])
                         (print_preview rt w))
               else Inr ([], w)) of
           Inl (e, w1) \<Rightarrow> Run [] (Some e) w1
         | Inr (confirm, w1) \<Rightarrow>
             if \<not> ask \<or> py_lower confirm \<in> set [''y'', ''yes'']
             then (case ast_parse rt code of
                     SyntaxErr m \<Rightarrow> Run [Message ''system'' (''SyntaxError: '' @ m)] None w1
                   | ParseCrash e \<Rightarrow> Run [] (Some e) w1
                   | Parsed statements \<Rightarrow>
                       (case run_statements rt statements [] w1 of
                          (output, error_during_execution, Some e, w2) \<Rightarrow> Run [] (Some e) w2
                        | (output, error_during_execution, None, w2) \<Rightarrow>
                            Run [Message ''system''
                                   (if error_during_execution
                                    then output @ ''Error during execution, aborting.''
                                    else output)] None w2))
             else Run [Message ''system'' ''Aborted, user chose not to run command.''] None w1)"

definition execute_linecmd :: "('s, 'v) runtime \<Rightarrow> string \<Rightarrow> 'v world \<Rightarrow> 'v run" where
  \<comment> \<open>\<^verbatim>\<open>_execute_shell\<close> and \<^verbatim>\<open>_execute_python\<close> are called with their default \<^verbatim>\<open>ask=True\<close>\<close>
  "execute_linecmd rt line w =
     (if startswith line ''terminal: ''
      then execute_shell rt (drop (length ''terminal: '') line) True w
      else if startswith line ''python: ''
      then execute_python rt (drop (length ''python: '') line) True w
      else if startswith (strip line) ''// load: ''
      then execute_load (drop (length ''load: '') line) w
      else Run [] None w)"

section \<open>A fragment of Python, to run the program on\<close>

text \<open>
  To evaluate the program on concrete sources, \<^verbatim>\<open>ast.parse\<close>, \<^verbatim>\<open>ast.unparse\<close>,
  \<^verbatim>\<open>exec\<close> and \<^verbatim>\<open>eval\<close> are written out for a fragment of Python, following the
  language reference. A source of the fragment is a sequence of lines separated by LF;
  a line is \<^verbatim>\<open>x = e\<close>, \<^verbatim>\<open>x += e\<close> or \<^verbatim>\<open>e\<close>; \<^verbatim>\<open>e\<close> is built from decimal
  literals without leading zeros and of at most 4300 digits, string literals in single quotes (printable ASCII,
  no quote and no backslash inside), names, \<^verbatim>\<open>+\<close>, parentheses and \<^verbatim>\<open>print(e)\<close>;
  a name is one ASCII letter, so it is neither a keyword nor a builtin; spaces separate
  tokens. On a source outside the fragment the functions below answer with the
  exception \<open>Exit ''OutsideFragment''\<close>, which is not what CPython does: nothing is
  claimed there. The same holds for a sum of more than 4300 digits, which recent
  versions of CPython refuse to convert to a string. On the values of the fragment
  (integers within that bound, strings, \<^verbatim>\<open>None\<close>) the truth test and \<^verbatim>\<open>str\<close> return
  and change nothing; the fragment cannot rebind \<^verbatim>\<open>str\<close>.
\<close>

datatype pyval = IntV int | StrV string | NoneV

datatype expr = Num nat | Name string | Str string | Add expr expr | Print expr

datatype stmt = ExprStmt expr | AssignStmt string expr | AugAssignStmt string expr

datatype token = TInt nat | TName string | TPrint | TStr string | TPlus | TEq | TPlusEq | TLPar | TRPar

datatype lexst = Idle | InNum nat | InName string | InStr string | AfterPlus

definition is_digit :: "char \<Rightarrow> bool" where
  "is_digit c = (let n = (of_char c :: nat) in 48 \<le> n \<and> n \<le> 57)"

definition is_letter :: "char \<Rightarrow> bool" where
  "is_letter c = (let n = (of_char c :: nat) in (65 \<le> n \<and> n \<le> 90) \<or> (97 \<le> n \<and> n \<le> 122))"

definition idle_step :: "char \<Rightarrow> (token list \<times> lexst) option" where
  "idle_step c =
     (if c = CHR '' '' then Some ([], Idle)
      else if is_digit c then Some ([], InNum (of_char c - 48))
      else if is_letter c then Some ([], InName [c])
      else if c = CHR 0x27 then Some ([], InStr [])
      else if c = CHR ''+'' then Some ([], AfterPlus)
      else if c = CHR ''='' then Some ([TEq], Idle)
      else if c = CHR ''('' then Some ([TLPar], Idle)
      else if c = CHR '')'' then Some ([TRPar], Idle)
      else None)"

definition name_token :: "string \<Rightarrow> token option" where
  "name_token s = (if s = ''print'' then Some TPrint else if length s = 1 then Some (TName s) else None)"

definition flush :: "token option \<Rightarrow> char \<Rightarrow> (token list \<times> lexst) option" where
  "flush t c =
     (case (t, idle_step c) of (Some t', Some (ts, st)) \<Rightarrow> Some (t' # ts, st) | _ \<Rightarrow> None)"

fun lex_step :: "lexst \<Rightarrow> char \<Rightarrow> (token list \<times> lexst) option" where
  "lex_step Idle c = idle_step c"
| "lex_step (InNum n) c =
     (if is_digit c then (if n = 0 then None else Some ([], InNum (10 * n + (of_char c - 48))))
      else if is_letter c \<or> c = CHR ''_'' \<or> c = CHR ''.'' then None
      else flush (Some (TInt n)) c)"
| "lex_step (InName s) c =
     (if is_letter c \<or> is_digit c \<or> c = CHR ''_'' then Some ([], InName (s @ [c]))
      else if c = CHR 0x27 then None
      else flush (name_token s) c)"
| "lex_step (InStr s) c =
     (if c = CHR 0x27 then Some ([TStr s], Idle)
      else if c = CHR 0x5C \<or> (of_char c :: nat) < 32 \<or> 126 < (of_char c :: nat) then None
      else Some ([], InStr (s @ [c])))"
| "lex_step AfterPlus c =
     (if c = CHR ''='' then Some ([TPlusEq], Idle) else flush (Some TPlus) c)"

fun lex :: "lexst \<Rightarrow> string \<Rightarrow> token list option" where
  "lex Idle [] = Some []"
| "lex (InNum n) [] = Some [TInt n]"
| "lex (InName s) [] = map_option (\<lambda>t. [t]) (name_token s)"
| "lex (InStr s) [] = None"
| "lex AfterPlus [] = Some [TPlus]"
| "lex st (c # cs) =
     (case lex_step st c of
        None \<Rightarrow> None
      | Some (ts, st') \<Rightarrow> map_option (\<lambda>us. ts @ us) (lex st' cs))"

text \<open>
  Recursive descent for \<^verbatim>\<open>sum ::= atom ('+' atom)*\<close>. The first argument bounds the
  depth of the recursion; \<open>parse_expr\<close> starts it above what the tokens can need.
\<close>

fun p_atom :: "'a list \<Rightarrow> token list \<Rightarrow> (expr \<times> token list) option"
and p_sum :: "'a list \<Rightarrow> token list \<Rightarrow> (expr \<times> token list) option"
and p_tail :: "'a list \<Rightarrow> expr \<Rightarrow> token list \<Rightarrow> (expr \<times> token list) option" where
  "p_atom [] ts = None"
| "p_atom (_ # fuel) (TInt n # ts) =
     (if 4300 < length (str_of_nat n) then None else Some (Num n, ts))"
| "p_atom (_ # fuel) (TStr s # ts) = Some (Str s, ts)"
| "p_atom (_ # fuel) (TName x # ts) = Some (Name x, ts)"
| "p_atom (_ # fuel) (TPrint # TLPar # ts) =
     (case p_sum fuel ts of Some (e, TRPar # ts') \<Rightarrow> Some (Print e, ts') | _ \<Rightarrow> None)"
| "p_atom (_ # fuel) (TLPar # ts) =
     (case p_sum fuel ts of Some (e, TRPar # ts') \<Rightarrow> Some (e, ts') | _ \<Rightarrow> None)"
| "p_atom (_ # fuel) ts = None"
| "p_sum [] ts = None"
| "p_sum (_ # fuel) ts =
     (case p_atom fuel ts of Some (e, ts') \<Rightarrow> p_tail fuel e ts' | None \<Rightarrow> None)"
| "p_tail [] e ts = None"
| "p_tail (_ # fuel) e (TPlus # ts) =
     (case p_atom fuel ts of Some (e', ts') \<Rightarrow> p_tail fuel (Add e e') ts' | None \<Rightarrow> None)"
| "p_tail (_ # fuel) e ts = Some (e, ts)"

definition parse_expr :: "token list \<Rightarrow> expr option" where
  "parse_expr ts =
     (case p_sum (ts @ ts @ [TPlus, TPlus]) ts of Some (e, []) \<Rightarrow> Some e | _ \<Rightarrow> None)"

fun parse_tokens :: "token list \<Rightarrow> stmt option" where
  "parse_tokens (TName x # TEq # ts) = map_option (AssignStmt x) (parse_expr ts)"
| "parse_tokens (TName x # TPlusEq # ts) = map_option (AugAssignStmt x) (parse_expr ts)"
| "parse_tokens ts = map_option ExprStmt (parse_expr ts)"

fun parse_lines :: "string list \<Rightarrow> stmt list option" where
  \<comment> \<open>blank lines are skipped; an indented line is outside the fragment\<close>
  "parse_lines [] = Some []"
| "parse_lines (l # ls) =
     (if l = [] then parse_lines ls
      else if hd l = CHR '' '' then None
      else case (lex Idle l, parse_lines ls) of
             (Some (t # ts), Some ss) \<Rightarrow> map_option (\<lambda>s. s # ss) (parse_tokens (t # ts))
           | _ \<Rightarrow> None)"

definition parse_source :: "string \<Rightarrow> stmt list option" where
  "parse_source src = parse_lines (split src (CHR 0x0A))"

fun unparse_expr :: "expr \<Rightarrow> string" where
  \<comment> \<open>\<^verbatim>\<open>+\<close> associates to the left, so only a right operand that is a sum takes parentheses\<close>
  "unparse_expr (Num n) = str_of_nat n"
| "unparse_expr (Name x) = x"
| "unparse_expr (Str s) = [CHR 0x27] @ s @ [CHR 0x27]"
| "unparse_expr (Add a (Add b c)) = unparse_expr a @ '' + ('' @ unparse_expr (Add b c) @ '')''"
| "unparse_expr (Add a b) = unparse_expr a @ '' + '' @ unparse_expr b"
| "unparse_expr (Print a) = ''print('' @ unparse_expr a @ '')''"

fun unparse_stmt :: "stmt \<Rightarrow> string" where
  "unparse_stmt (ExprStmt e) = unparse_expr e"
| "unparse_stmt (AssignStmt x e) = x @ '' = '' @ unparse_expr e"
| "unparse_stmt (AugAssignStmt x e) = x @ '' += '' @ unparse_expr e"

fun stmt_class_of :: "stmt \<Rightarrow> stmt_class" where
  "stmt_class_of (ExprStmt e) = Expr"
| "stmt_class_of (AssignStmt x e) = Assign"
| "stmt_class_of (AugAssignStmt x e) = AugAssign"

fun type_name :: "pyval \<Rightarrow> string" where
  "type_name (IntV i) = ''int''"
| "type_name (StrV s) = ''str''"
| "type_name NoneV = ''NoneType''"

fun add_vals :: "pyval \<Rightarrow> pyval \<Rightarrow> pyval outcome" where
  "add_vals (IntV a) (IntV b) =
     (if 4300 < length (str_of_int (a + b)) then Raised (Exit ''OutsideFragment'' ''int'')
      else Returned (IntV (a + b)))"
| "add_vals (StrV a) (StrV b) = Returned (StrV (a @ b))"
| "add_vals (StrV a) y =
     Raised (Error ''TypeError''
       (''can only concatenate str (not '' @ [CHR 0x22] @ type_name y @ [CHR 0x22] @ '') to str''))"
| "add_vals x y =
     Raised (Error ''TypeError''
       (''unsupported operand type(s) for +: '' @ [CHR 0x27] @ type_name x @ [CHR 0x27]
          @ '' and '' @ [CHR 0x27] @ type_name y @ [CHR 0x27]))"

fun str_val :: "pyval \<Rightarrow> string" where
  "str_val (IntV i) = str_of_int i"
| "str_val (StrV s) = s"
| "str_val NoneV = ''None''"

fun repr_val :: "pyval \<Rightarrow> string" where
  \<comment> \<open>\<^verbatim>\<open>repr\<close>; a string of the fragment has nothing to escape\<close>
  "repr_val (StrV s) = [CHR 0x27] @ s @ [CHR 0x27]"
| "repr_val v = str_val v"

fun bool_val :: "pyval \<Rightarrow> bool" where
  "bool_val (IntV i) = (i \<noteq> 0)"
| "bool_val (StrV s) = (s \<noteq> [])"
| "bool_val NoneV = False"

definition name_error :: "string \<Rightarrow> exn" where
  "name_error x = Error ''NameError'' (''name '' @ [CHR 0x27] @ x @ [CHR 0x27] @ '' is not defined'')"

fun eval_expr :: "(string \<rightharpoonup> pyval) \<Rightarrow> expr \<Rightarrow> pyval outcome \<times> string list" where
  \<comment> \<open>the value or the exception, and the arguments of the \<^verbatim>\<open>print\<close> calls made, in order\<close>
  "eval_expr env (Num n) = (Returned (IntV (int n)), [])"
| "eval_expr env (Str s) = (Returned (StrV s), [])"
| "eval_expr env (Name x) =
     (case env x of Some v \<Rightarrow> (Returned v, []) | None \<Rightarrow> (Raised (name_error x), []))"
| "eval_expr env (Add a b) =
     (case eval_expr env a of
        (Raised e, p) \<Rightarrow> (Raised e, p)
      | (Returned x, p) \<Rightarrow>
          (case eval_expr env b of
             (Raised e, q) \<Rightarrow> (Raised e, p @ q)
           | (Returned y, q) \<Rightarrow> (add_vals x y, p @ q)))"
| "eval_expr env (Print a) =
     (case eval_expr env a of
        (Raised e, p) \<Rightarrow> (Raised e, p)
      | (Returned x, p) \<Rightarrow> (Returned NoneV, p @ [str_val x]))"

fun exec_stmt :: "(string \<rightharpoonup> pyval) \<Rightarrow> stmt \<Rightarrow> (unit outcome \<times> string list) \<times> (string \<rightharpoonup> pyval)"
  where
  "exec_stmt env (ExprStmt e) =
     (case eval_expr env e of
        (Raised x, p) \<Rightarrow> ((Raised x, p), env)
      | (Returned v, p) \<Rightarrow> ((Returned (), p), env))"
| "exec_stmt env (AssignStmt x e) =
     (case eval_expr env e of
        (Raised r, p) \<Rightarrow> ((Raised r, p), env)
      | (Returned v, p) \<Rightarrow> ((Returned (), p), env(x \<mapsto> v)))"
| "exec_stmt env (AugAssignStmt x e) =
     (case env x of
        None \<Rightarrow> ((Raised (name_error x), []), env)
      | Some old \<Rightarrow>
          (case eval_expr env e of
             (Raised r, p) \<Rightarrow> ((Raised r, p), env)
           | (Returned v, p) \<Rightarrow>
               (case add_vals old v of
                  Raised r \<Rightarrow> ((Raised r, p), env)
                | Returned new \<Rightarrow> ((Returned (), p), env(x \<mapsto> new)))))"

fun exec_stmts :: "(string \<rightharpoonup> pyval) \<Rightarrow> stmt list \<Rightarrow> (unit outcome \<times> string list) \<times> (string \<rightharpoonup> pyval)"
  where
  "exec_stmts env [] = ((Returned (), []), env)"
| "exec_stmts env (s # ss) =
     (case exec_stmt env s of
        ((Raised r, p), env1) \<Rightarrow> ((Raised r, p), env1)
      | ((Returned _, p), env1) \<Rightarrow>
          (case exec_stmts env1 ss of ((r, q), env2) \<Rightarrow> ((r, p @ q), env2)))"

definition outside :: "string \<Rightarrow> exn" where
  "outside src = Exit ''OutsideFragment'' src"

definition mini_parse :: "string \<Rightarrow> stmt parsed" where
  "mini_parse src =
     (case parse_source src of Some ss \<Rightarrow> Parsed ss | None \<Rightarrow> ParseCrash (outside src))"

definition mini_exec :: "string \<Rightarrow> pyval world \<Rightarrow> (unit outcome \<times> string) \<times> pyval world" where
  \<comment> \<open>each \<^verbatim>\<open>print\<close> writes its argument and a newline into the buffer\<close>
  "mini_exec src w =
     (case parse_source src of
        None \<Rightarrow> ((Raised (outside src), []), w)
      | Some ss \<Rightarrow>
          (case exec_stmts (locals_env w) ss of
             ((r, p), env') \<Rightarrow>
               ((r, concat (map (\<lambda>l. l @ ''\<newline>'') p)), w\<lparr>locals_env := env'\<rparr>)))"

definition mini_eval :: "string \<Rightarrow> pyval world \<Rightarrow> pyval outcome \<times> pyval world" where
  \<comment> \<open>\<^verbatim>\<open>eval\<close> takes one expression; on an augmented assignment it raises \<^verbatim>\<open>SyntaxError\<close>\<close>
  "mini_eval src w =
     (case parse_source src of
        Some [ExprStmt e] \<Rightarrow>
          (case eval_expr (locals_env w) e of
             (r, p) \<Rightarrow> (r, w\<lparr>tty := tty w @ map Printed p\<rparr>))
      | Some [AugAssignStmt x e] \<Rightarrow>
          (Raised (Error ''SyntaxError'' ''invalid syntax (<string>, line 1)''), w)
      | _ \<Rightarrow> (Raised (outside src), w))"

definition mini_py :: "(string \<Rightarrow> completed) \<Rightarrow> (stmt, pyval) runtime" where
  \<comment> \<open>\<^verbatim>\<open>colored\<close> as it is when the output is not a terminal; the shell is the argument\<close>
  "mini_py sh =
     \<lparr>colored = (\<lambda>text color on_color attrs. text),
      subprocess_run = (\<lambda>cmd w. (sh cmd, w)),
      ast_parse = mini_parse,
      ast_unparse = unparse_stmt,
      node_class = stmt_class_of,
      py_exec = mini_exec,
      py_eval = mini_eval,
      py_bool = (\<lambda>v w. (Returned (bool_val v), w)),
      py_str = (\<lambda>v w. (Returned (str_val v), w))\<rparr>"

definition no_shell :: "string \<Rightarrow> completed" where
  \<comment> \<open>a host on which every command is \<^verbatim>\<open>true\<close>\<close>
  "no_shell cmd = \<lparr>stdout = [], stderr = [], returncode = 0\<rparr>"

definition world0 :: "string list \<Rightarrow> pyval world" where
  \<comment> \<open>a fresh process with the given lines on standard input and an empty file system\<close>
  "world0 ins = \<lparr>stdin = ins, tty = [], files = Map.empty, locals_env = Map.empty\<rparr>"

section \<open>Notions used to state the properties\<close>

definition saved_reply :: "string \<Rightarrow> message" where
  \<comment> \<open>the reply to a save directive: the file name is the text between the first two colons\<close>
  "saved_reply line =
     Message ''system''
       (''Saved to '' @ (case split line (CHR '':'') of _ # piece # _ \<Rightarrow> strip piece | _ \<Rightarrow> []))"

definition declines :: "string \<Rightarrow> bool" where
  \<comment> \<open>an answer that the \<^verbatim>\<open>(Y/n)\<close> prompts do not take as a yes\<close>
  "declines a = (py_lower a \<notin> set [''y'', ''Y'', [], ''yes''])"

definition save_directives :: "string \<Rightarrow> string list" where
  "save_directives text = filter (\<lambda>l. startswith (strip l) ''// save:'') (splitlines text)"

definition demo_shell :: "string \<Rightarrow> completed" where
  \<comment> \<open>a host on which every command prints a line on each stream and exits with 2\<close>
  "demo_shell cmd =
     \<lparr>stdout = ''a.txt\<newline>'', stderr = ''ls: b: No such file or directory\<newline>'', returncode = 2\<rparr>"

section \<open>Evaluation rules and lemmas on the loops\<close>

lemmas str_evals = strip_def startswith_def py_isspace_def py_lower_def py_isupper_def str_of_int_def

lemmas mini_evals = mini_py_def mini_parse_def mini_exec_def mini_eval_def parse_source_def
  split_def parse_expr_def idle_step_def flush_def name_token_def is_digit_def is_letter_def
  world0_def name_error_def outside_def str_of_nat.simps str_of_int_def

lemma execute_python_no_ask:
  "execute_python rt code False w =
     (case ast_parse rt (strip code) of
        SyntaxErr m \<Rightarrow> Run [Message ''system'' (''SyntaxError: '' @ m)] None w
      | ParseCrash e \<Rightarrow> Run [] (Some e) w
      | Parsed statements \<Rightarrow>
          (case run_statements rt statements [] w of
             (output, flag, Some e, w2) \<Rightarrow> Run [] (Some e) w2
           | (output, flag, None, w2) \<Rightarrow>
               Run [Message ''system''
                      (if flag then output @ ''Error during execution, aborting.'' else output)]
                 None w2))"
  by (simp add: execute_python_def)

lemma execute_python_single_falsy:
  assumes "ast_parse rt (strip code) = Parsed [s]"
    and "\<not> uses_exec (node_class rt s)"
    and "py_eval rt (ast_unparse rt s) w = (Returned v, w1)"
    and "py_bool rt v w1 = (Returned False, w2)"
  shows "execute_python rt code False w =
           Run [Message ''system'' (''>>> '' @ ast_unparse rt s @ ''\<newline>'')] None w2"
  using assms by (simp add: execute_python_no_ask)

lemma execute_python_single_truthy:
  assumes "ast_parse rt (strip code) = Parsed [s]"
    and "\<not> uses_exec (node_class rt s)"
    and "py_eval rt (ast_unparse rt s) w = (Returned v, w1)"
    and "py_bool rt v w1 = (Returned True, w2)"
    and "py_str rt v w2 = (Returned shown, w3)"
  shows "execute_python rt code False w =
           Run [Message ''system''
                  (''>>> '' @ ast_unparse rt s @ ''\<newline>'' @ shown @ ''\<newline>'')] None w3"
  using assms by (simp add: execute_python_no_ask)

lemmas run_evals = execute_python_no_ask uses_exec_def str_of_nat.simps


text \<open>
  The truth test and \<^verbatim>\<open>str\<close> stand inside the \<^verbatim>\<open>try\<close>: when one of them raises an
  instance of \<^verbatim>\<open>Exception\<close> on the value of a single expression, the reply is the
  error transcript.
\<close>

lemma truth_test_failure_is_reported:
  assumes "ast_parse rt (strip code) = Parsed [s]"
    and "\<not> uses_exec (node_class rt s)"
    and "py_eval rt (ast_unparse rt s) w = (Returned v, w1)"
    and "py_bool rt v w1 = (Raised (Error cls m), w2)
         \<or> (py_bool rt v w1 = (Returned True, w') \<and> py_str rt v w' = (Raised (Error cls m), w2))"
  shows "execute_python rt code False w =
           Run [Message ''system''
                  (''>>> '' @ ast_unparse rt s @ ''\<newline>'' @ cls @ '': '' @ m @ ''\<newline>''
                   @ ''Error during execution, aborting.'')] None w2"
  using assms by (auto simp add: execute_python_no_ask)

lemma split_from_not_Nil: "split_from c acc s \<noteq> []"
  by (induction s arbitrary: acc) auto

lemma split_from_two:
  "c \<in> set s \<Longrightarrow> \<exists>a b r. split_from c acc s = a # b # r"
proof (induction s arbitrary: acc)
  case Nil
  then show ?case by simp
next
  case (Cons x xs)
  show ?case
  proof (cases "x = c")
    case True
    obtain b r where "split_from c [] xs = b # r"
      using split_from_not_Nil [of c "[]" xs] by (cases "split_from c [] xs") auto
    with True show ?thesis by simp
  next
    case False
    with Cons.prems have "c \<in> set xs" by simp
    from Cons.IH [OF this, of "acc @ [x]"] False show ?thesis by simp
  qed
qed

lemma set_strip: "set (strip s) \<subseteq> set s"
proof
  fix x assume "x \<in> set (strip s)"
  then have "x \<in> set (dropWhile py_isspace (rev (dropWhile py_isspace s)))"
    by (simp add: strip_def)
  then have "x \<in> set (rev (dropWhile py_isspace s))"
    by (rule set_dropWhileD)
  then have "x \<in> set (dropWhile py_isspace s)" by simp
  then show "x \<in> set s" by (rule set_dropWhileD)
qed

lemma directive_has_colon:
  assumes "startswith (strip line) ''// save:''"
  shows "CHR '':'' \<in> set line"
proof -
  from assms have "take (length ''// save:'') (strip line) = ''// save:''"
    by (simp only: startswith_def)
  then have "CHR '':'' \<in> set (take (length ''// save:'') (strip line))"
    by (simp only: list.set insert_iff simp_thms)
  then have "CHR '':'' \<in> set (strip line)" by (rule in_set_takeD)
  with set_strip show ?thesis by blast
qed

lemma save_codeblock_shape:
  assumes "startswith (strip line) ''// save:''"
    and "save_codeblock rt line prev w = Run ms None w1"
  shows "ms = [saved_reply line]"
proof -
  obtain a b r where sp: "split line (CHR '':'') = a # b # r"
    using split_from_two [OF directive_has_colon [OF assms(1)], of "[]"]
    unfolding split_def by blast
  from assms(2) show ?thesis
    by (auto simp add: save_codeblock_def sp saved_reply_def Let_def
        split: sum.splits if_splits)
qed

lemma save_codeblock_declined:
  assumes "startswith (strip line) ''// save:''"
    and "stdin w = a # rest" and "declines a"
  shows "\<exists>t. save_codeblock rt line prev w = Run [saved_reply line] None (w\<lparr>tty := t, stdin := rest\<rparr>)"
proof -
  obtain x b r where sp: "split line (CHR '':'') = x # b # r"
    using split_from_two [OF directive_has_colon [OF assms(1)], of "[]"]
    unfolding split_def by blast
  from assms(2,3) show ?thesis
    by (simp add: save_codeblock_def sp saved_reply_def Let_def input_def print_def
        print_preview_def declines_def) blast
qed

lemma save_lines_shape:
  "save_lines rt ls prev cb w = Run ms None w' \<Longrightarrow>
   ms = map saved_reply (filter (\<lambda>l. startswith (strip l) ''// save:'') ls)"
proof (induction ls arbitrary: prev cb w ms w')
  case Nil
  then show ?case by simp
next
  case (Cons line ls)
  let ?d = "startswith (strip line) ''// save:''"
  obtain m1 r1 w1 where first:
    "(if ?d then save_codeblock rt line prev w else Run [] None w) = Run m1 r1 w1"
    by (cases "if ?d then save_codeblock rt line prev w else Run [] None w") auto
  show ?case
  proof (cases r1)
    case (Some e)
    with Cons.prems first show ?thesis by simp
  next
    case None
    have m1: "m1 = (if ?d then [saved_reply line] else [])"
      using first None save_codeblock_shape [of line rt prev w m1 w1]
      by (auto split: if_splits)
    obtain p' c' where pc: "scan_codeblock line prev cb = (p', c')"
      by (cases "scan_codeblock line prev cb") auto
    obtain m2 r2 w2 where rest: "save_lines rt ls p' c' w1 = Run m2 r2 w2"
      by (cases "save_lines rt ls p' c' w1") auto
    from Cons.prems first None pc rest have res: "ms = m1 @ m2" "r2 = None"
      by simp_all
    from Cons.IH [of p' c' w1 m2 w2] rest res(2)
    have "m2 = map saved_reply (filter (\<lambda>l. startswith (strip l) ''// save:'') ls)" by simp
    with res(1) m1 show ?thesis by simp
  qed
qed

lemma save_lines_declined:
  fixes w :: "'v world"
  assumes "length (filter (\<lambda>l. startswith (strip l) ''// save:'') ls) \<le> length (stdin w)"
    and "\<forall>a \<in> set (take (length (filter (\<lambda>l. startswith (strip l) ''// save:'') ls)) (stdin w)). declines a"
  shows "\<exists>t. save_lines rt ls prev cb w =
           Run (map saved_reply (filter (\<lambda>l. startswith (strip l) ''// save:'') ls)) None
             (w\<lparr>tty := t, stdin := drop (length (filter (\<lambda>l. startswith (strip l) ''// save:'') ls)) (stdin w)\<rparr>)"
  using assms
proof (induction ls arbitrary: prev cb w)
  case Nil
  have "w = w\<lparr>tty := tty w, stdin := stdin w\<rparr>" by simp
  then show ?case by (metis (no_types) save_lines.simps(1) list.simps(8) filter.simps(1) list.size(3) drop0)
next
  case (Cons line ls)
  let ?d = "startswith (strip line) ''// save:''"
  let ?n = "length (filter (\<lambda>l. startswith (strip l) ''// save:'') ls)"
  obtain p' c' where pc: "scan_codeblock line prev cb = (p', c')"
    by (cases "scan_codeblock line prev cb") auto
  show ?case
  proof (cases ?d)
    case False
    from Cons.prems False have "?n \<le> length (stdin w)"
      and "\<forall>a \<in> set (take ?n (stdin w)). declines a" by simp_all
    from Cons.IH [OF this, of p' c'] obtain t where
      "save_lines rt ls p' c' w = Run (map saved_reply (filter (\<lambda>l. startswith (strip l) ''// save:'') ls)) None
             (w\<lparr>tty := t, stdin := drop ?n (stdin w)\<rparr>)" by blast
    with False pc show ?thesis by auto
  next
    case True
    with Cons.prems(1) obtain a rest where st: "stdin w = a # rest"
      by (cases "stdin w") auto
    with Cons.prems True have a: "declines a" and n: "?n \<le> length rest"
      and r: "\<forall>a \<in> set (take ?n rest). declines a" by simp_all
    from save_codeblock_declined [OF True st a, of rt prev] obtain t1 where
      first: "save_codeblock rt line prev w = Run [saved_reply line] None (w\<lparr>tty := t1, stdin := rest\<rparr>)"
      by blast
    let ?w1 = "w\<lparr>tty := t1, stdin := rest\<rparr>"
    have "?n \<le> length (stdin ?w1)" and "\<forall>a \<in> set (take ?n (stdin ?w1)). declines a"
      using n r by simp_all
    from Cons.IH [OF this, of p' c'] obtain t where
      "save_lines rt ls p' c' ?w1 = Run (map saved_reply (filter (\<lambda>l. startswith (strip l) ''// save:'') ls)) None
             (?w1\<lparr>tty := t, stdin := drop ?n (stdin ?w1)\<rparr>)" by blast
    with True pc first st show ?thesis by auto
  qed
qed

section \<open>The confirmation gate of the statement interpreter\<close>

text \<open>
  Claim C1 as it is stated, that an empty answer to the prompt of \<^verbatim>\<open>_execute_python\<close>
  runs the code, fails: the prompt reads \<^verbatim>\<open>(y/N)\<close> and the accepted answers are
  \<^verbatim>\<open>["y", "yes"]\<close>. On the source \<^verbatim>\<open>1 + 1\<close> the empty answer gives the reply
  \<^verbatim>\<open>Aborted, user chose not to run command.\<close> and nothing is evaluated, where the
  same source without confirmation gives the transcript.
\<close>

theorem execute_python_empty_answer_counterexample:
  "execute_python (mini_py no_shell) ''1 + 1'' True (world0 [[]]) =
     Run [Message ''system'' ''Aborted, user chose not to run command.''] None
       \<lparr>stdin = [], tty = [Printed ''Preview'', Printed ''>>> 1 + 1'',
                            Prompted ('' '' @ EMOJI_WARN @ '' Execute Python code? (y/N) '')],
        files = Map.empty, locals_env = Map.empty\<rparr>
   \<and> execute_python (mini_py no_shell) ''1 + 1'' False (world0 []) =
     Run [Message ''system'' ''>>> 1 + 1\<newline>2\<newline>''] None (world0 [])"
  by (simp add: execute_python_def input_def print_def print_preview_def mini_evals str_evals
      uses_exec_def str_of_nat.simps)

text \<open>
  Claim C1, amended: with confirmation required, an empty answer is a decline. For
  every source text, the empty answer, like every answer whose lower-case form is
  neither \<^verbatim>\<open>y\<close> nor \<^verbatim>\<open>yes\<close>, gives the single reply
  \<^verbatim>\<open>Aborted, user chose not to run command.\<close> in the world left by the prompt, so
  the code is neither parsed nor executed; the answers \<^verbatim>\<open>y\<close> and \<^verbatim>\<open>yes\<close>, in
  any case, run the code as without confirmation.
\<close>

theorem execute_python_gate:
  fixes rt :: "('s, 'v) runtime"
  assumes "stdin w = a # rest"
  shows "execute_python rt code True w =
           (let w1 = w\<lparr>tty := tty w @
                         [Printed (colored rt ''Preview'' ''white'' [] [''bold'']),
                          Printed (''>>> '' @ colored rt (strip code) ''light_yellow'' [] []),
                          Prompted (colored rt ('' '' @ EMOJI_WARN @ '' Execute Python code? (y/N) '')
                                      ''red'' ''on_light_yellow'' [''bold''])],
                       stdin := rest\<rparr>
            in if a = [] \<or> py_lower a \<notin> set [''y'', ''yes'']
               then Run [Message ''system'' ''Aborted, user chose not to run command.''] None w1
               else execute_python rt code False w1)"
proof -
  have "a = [] \<Longrightarrow> py_lower a \<notin> set [''y'', ''yes'']"
    by (simp add: py_lower_def)
  then show ?thesis
    using assms
    by (auto simp add: execute_python_def input_def print_def print_preview_def Let_def)
qed

theorem execute_python_gate_witness:
  "stdin (world0 [[], ''y'']) = [] # [''y'']
   \<and> replies (execute_python (mini_py no_shell) ''a = 2'' True (world0 [[], ''y''])) =
       [Message ''system'' ''Aborted, user chose not to run command.'']
   \<and> locals_env (after (execute_python (mini_py no_shell) ''a = 2'' True (world0 [[], ''y'']))) ''a''
       = None"
  using execute_python_gate [of "world0 [[], ''y'']" "[]" "[''y'']" "mini_py no_shell" "''a = 2''"]
  by (simp add: world0_def Let_def)

section \<open>The save handler\<close>

text \<open>
  Claim C2: the reply \<^verbatim>\<open>Saved to <filename>\<close> of \<^verbatim>\<open>_execute_save\<close> does not depend
  on the answer. Whenever the handler runs to its end, its replies are exactly one
  \<^verbatim>\<open>Saved to <filename>\<close> for each save directive of the text, in order, whatever
  was answered; and when every directive is answered negatively the handler does run
  to its end, yields these replies and leaves the file system as it was.
\<close>

theorem execute_save_always_reports:
  fixes w :: "'v world"
  shows "(raised (execute_save rt text w) = None \<longrightarrow>
            replies (execute_save rt text w) = map saved_reply (save_directives text))
       \<and> (length (save_directives text) \<le> length (stdin w)
            \<and> (\<forall>a \<in> set (take (length (save_directives text)) (stdin w)). declines a) \<longrightarrow>
            raised (execute_save rt text w) = None
            \<and> replies (execute_save rt text w) = map saved_reply (save_directives text)
            \<and> files (after (execute_save rt text w)) = files w)"
proof (intro conjI impI)
  assume "raised (execute_save rt text w) = None"
  then obtain ms w' where "save_lines rt (splitlines text) [] [] w = Run ms None w'"
    by (cases "save_lines rt (splitlines text) [] [] w") (simp add: execute_save_def)
  then show "replies (execute_save rt text w) = map saved_reply (save_directives text)"
    using save_lines_shape [of rt "splitlines text" "[]" "[]" w ms w']
    by (simp add: execute_save_def save_directives_def)
next
  assume h: "length (save_directives text) \<le> length (stdin w)
            \<and> (\<forall>a \<in> set (take (length (save_directives text)) (stdin w)). declines a)"
  then obtain t where r: "save_lines rt (splitlines text) [] [] w =
      Run (map saved_reply (save_directives text)) None
        (w\<lparr>tty := t, stdin := drop (length (save_directives text)) (stdin w)\<rparr>)"
    using save_lines_declined [of "splitlines text" w rt "[]" "[]"]
    unfolding save_directives_def by blast
  from r show "raised (execute_save rt text w) = None"
    by (simp add: execute_save_def)
  from r show "replies (execute_save rt text w) = map saved_reply (save_directives text)"
    by (simp add: execute_save_def)
  from r show "files (after (execute_save rt text w)) = files w"
    by (simp add: execute_save_def)
qed

theorem execute_save_always_reports_witness:
  "save_directives ''```python\<newline>x = 1\<newline>```\<newline>// save: a.py\<newline>  // save: b.py : c'' =
     [''// save: a.py'', ''  // save: b.py : c'']
   \<and> declines ''n'' \<and> declines ''No''
   \<and> replies (execute_save (mini_py no_shell)
        ''```python\<newline>x = 1\<newline>```\<newline>// save: a.py\<newline>  // save: b.py : c'' (world0 [''n'', ''No''])) =
       [Message ''system'' ''Saved to a.py'', Message ''system'' ''Saved to b.py'']
   \<and> files (after (execute_save (mini_py no_shell)
        ''```python\<newline>x = 1\<newline>```\<newline>// save: a.py\<newline>  // save: b.py : c'' (world0 [''n'', ''No''])))
       = Map.empty"
proof -
  let ?text = "''```python\<newline>x = 1\<newline>```\<newline>// save: a.py\<newline>  // save: b.py : c''"
  have d: "save_directives ?text = [''// save: a.py'', ''  // save: b.py : c'']"
    by (simp add: save_directives_def splitlines_def is_linebreak_def str_evals)
  have n: "declines ''n''" "declines ''No''"
    by (simp_all add: declines_def str_evals)
  have s: "map saved_reply [''// save: a.py'', ''  // save: b.py : c''] =
             [Message ''system'' ''Saved to a.py'', Message ''system'' ''Saved to b.py'']"
    by (simp add: saved_reply_def split_def str_evals)
  from execute_save_always_reports [of "mini_py no_shell" ?text "world0 [''n'', ''No'']"] d n s
  show ?thesis
    by (simp add: world0_def)
qed

section \<open>The load directive\<close>

text \<open>
  Claim C3, that the line \<^verbatim>\<open>// load: <path>\<close> calls \<^verbatim>\<open>_execute_load\<close> with
  \<^verbatim>\<open><path>\<close>, fails on the code: \<^verbatim>\<open>_execute_linecmd\<close> cuts
  \<^verbatim>\<open>len("load: ")\<close>, six characters, from a line that starts with the nine
  characters \<^verbatim>\<open>// load: \<close>. The line \<^verbatim>\<open>// load: notes.txt\<close> calls the handler with
  \<^verbatim>\<open>d: notes.txt\<close>: with \<^verbatim>\<open>notes.txt\<close> on disk and the answer \<^verbatim>\<open>y\<close>, the reply
  says that \<^verbatim>\<open>d: notes.txt\<close> does not exist and \<^verbatim>\<open>open\<close> raises, where the handler
  called with \<^verbatim>\<open>notes.txt\<close> replies with the content of the file.
\<close>

theorem load_directive_passes_wrong_filename:
  "execute_linecmd rt ''// load: notes.txt'' w = execute_load ''d: notes.txt'' w
   \<and> replies (execute_linecmd (mini_py no_shell) ''// load: notes.txt''
        ((world0 [''y''])\<lparr>files := [''notes.txt'' \<mapsto> File ''hello'']\<rparr>)) =
       [Message ''system''
          (''Tried to load file '' @ [CHR 0x27] @ ''d: notes.txt'' @ [CHR 0x27] @ '', but it does not exist.'')]
   \<and> raised (execute_linecmd (mini_py no_shell) ''// load: notes.txt''
        ((world0 [''y''])\<lparr>files := [''notes.txt'' \<mapsto> File ''hello'']\<rparr>)) =
       Some (Error ''FileNotFoundError''
          (''[Errno 2] No such file or directory: '' @ [CHR 0x27] @ ''d: notes.txt'' @ [CHR 0x27]))
   \<and> replies (execute_load ''notes.txt''
        ((world0 [''y''])\<lparr>files := [''notes.txt'' \<mapsto> File ''hello'']\<rparr>)) =
       [Message ''system'' ''# filename: notes.txt\<newline>\<newline>hello'']"
  by (simp add: execute_linecmd_def execute_load_def input_def path_exists_def read_file_def
      world0_def str_evals)

text \<open>
  Claim C4, that \<^verbatim>\<open>_execute_load\<close> does not prompt for a file that does not exist,
  fails on the code: nothing returns after the first \<^verbatim>\<open>yield\<close>, so the prompt
  \<^verbatim>\<open>Load from <filename>? (Y/n)\<close> is written for every file name. For the missing
  file \<^verbatim>\<open>nope.txt\<close> the reply is followed by the prompt, a line of input is read,
  and on the answer \<^verbatim>\<open>y\<close> the call of \<^verbatim>\<open>open\<close> raises \<^verbatim>\<open>FileNotFoundError\<close>.
\<close>

theorem execute_load_prompts_for_missing_file:
  "tty (after (execute_load filename w)) = tty w @ [Prompted (''Load from '' @ filename @ ''? (Y/n) '')]
   \<and> \<not> path_exists (world0 [''y'']) ''nope.txt''
   \<and> execute_load ''nope.txt'' (world0 [''y'']) =
       Run [Message ''system''
              (''Tried to load file '' @ [CHR 0x27] @ ''nope.txt'' @ [CHR 0x27] @ '', but it does not exist.'')]
           (Some (Error ''FileNotFoundError''
              (''[Errno 2] No such file or directory: '' @ [CHR 0x27] @ ''nope.txt'' @ [CHR 0x27])))
           ((world0 [])\<lparr>tty := [Prompted ''Load from nope.txt? (Y/n) '']\<rparr>)
   \<and> execute_load ''nope.txt'' (world0 [''n'']) =
       Run [Message ''system''
              (''Tried to load file '' @ [CHR 0x27] @ ''nope.txt'' @ [CHR 0x27] @ '', but it does not exist.'')]
           None ((world0 [])\<lparr>tty := [Prompted ''Load from nope.txt? (Y/n) '']\<rparr>)"
  by (simp add: execute_load_def input_def path_exists_def read_file_def world0_def str_evals
      Let_def split: list.splits sum.splits)

section \<open>The statement interpreter\<close>

text \<open>
  Claim C5, that every assignment, augmented assignment included, is run by \<^verbatim>\<open>exec\<close>,
  fails on the code: \<^verbatim>\<open>ast.AugAssign\<close> is not in the chain of \<^verbatim>\<open>isinstance\<close>
  tests, so \<^verbatim>\<open>a += 1\<close> is handed to \<^verbatim>\<open>eval\<close>, which raises \<^verbatim>\<open>SyntaxError\<close>,
  and the run is aborted there.
\<close>

theorem augmented_assignment_goes_to_eval:
  "\<not> uses_exec AugAssign
   \<and> ast_parse (mini_py no_shell) ''a = 2\<newline>a += 1\<newline>a'' =
       Parsed [AssignStmt ''a'' (Num 2), AugAssignStmt ''a'' (Num 1), ExprStmt (Name ''a'')]
   \<and> node_class (mini_py no_shell) (AugAssignStmt ''a'' (Num 1)) = AugAssign
   \<and> replies (execute_python (mini_py no_shell) ''a = 2\<newline>a += 1\<newline>a'' False (world0 [])) =
       [Message ''system''
          (''>>> a = 2\<newline>>>> a += 1\<newline>SyntaxError: invalid syntax (<string>, line 1)\<newline>''
           @ ''Error during execution, aborting.'')]"
  by (simp add: run_evals mini_evals str_evals)

theorem augmented_assignment_goes_to_eval_witness:
  "node_class (mini_py no_shell) (AugAssignStmt ''a'' (Num 1)) = AugAssign
   \<and> replies (execute_python (mini_py no_shell) ''a = 2\<newline>a += 1\<newline>a'' False (world0 [])) =
       [Message ''system''
          (''>>> a = 2\<newline>>>> a += 1\<newline>SyntaxError: invalid syntax (<string>, line 1)\<newline>''
           @ ''Error during execution, aborting.'')]"
  using augmented_assignment_goes_to_eval by simp

text \<open>
  Claim C6 as it is stated, that the reply to a single expression \<^verbatim>\<open>e\<close> whose value is
  not empty and not null is \<^verbatim>\<open>">>> " + e + "\n" + repr(value) + "\n"\<close>, fails in
  three ways: the transcript shows \<^verbatim>\<open>ast.unparse\<close> of the statement, not the source
  (\<^verbatim>\<open>1+1\<close> is shown as \<^verbatim>\<open>1 + 1\<close>); the value is written with \<^verbatim>\<open>str\<close>, not
  \<^verbatim>\<open>repr\<close> (the value of \<^verbatim>\<open>'hi'\<close> is shown as \<^verbatim>\<open>hi\<close>); and the value line is
  written when the value is true, not when it is not empty and not null (the value of
  \<^verbatim>\<open>0\<close> is not shown).
\<close>

theorem execute_python_transcript_counterexample:
  "ast_parse (mini_py no_shell) ''1+1'' = Parsed [ExprStmt (Add (Num 1) (Num 1))]
   \<and> fst (py_eval (mini_py no_shell) ''1+1'' (world0 [])) = Returned (IntV 2)
   \<and> replies (execute_python (mini_py no_shell) ''1+1'' False (world0 [])) =
       [Message ''system'' ''>>> 1 + 1\<newline>2\<newline>'']
   \<and> replies (execute_python (mini_py no_shell) ''1+1'' False (world0 [])) \<noteq>
       [Message ''system'' (''>>> '' @ ''1+1'' @ ''\<newline>'' @ repr_val (IntV 2) @ ''\<newline>'')]
   \<and> fst (py_eval (mini_py no_shell) [CHR 0x27, CHR ''h'', CHR ''i'', CHR 0x27] (world0 []))
       = Returned (StrV ''hi'')
   \<and> replies (execute_python (mini_py no_shell) [CHR 0x27, CHR ''h'', CHR ''i'', CHR 0x27] False (world0 [])) =
       [Message ''system'' ([CHR ''>'', CHR ''>'', CHR ''>'', CHR '' '', CHR 0x27, CHR ''h'', CHR ''i'', CHR 0x27] @ ''\<newline>hi\<newline>'')]
   \<and> replies (execute_python (mini_py no_shell) [CHR 0x27, CHR ''h'', CHR ''i'', CHR 0x27] False (world0 [])) \<noteq>
       [Message ''system'' (''>>> '' @ [CHR 0x27, CHR ''h'', CHR ''i'', CHR 0x27] @ ''\<newline>''
                             @ repr_val (StrV ''hi'') @ ''\<newline>'')]
   \<and> fst (py_eval (mini_py no_shell) ''0'' (world0 [])) = Returned (IntV 0)
   \<and> replies (execute_python (mini_py no_shell) ''0'' False (world0 [])) =
       [Message ''system'' ''>>> 0\<newline>'']
   \<and> replies (execute_python (mini_py no_shell) ''0'' False (world0 [])) \<noteq>
       [Message ''system'' (''>>> '' @ ''0'' @ ''\<newline>'' @ repr_val (IntV 0) @ ''\<newline>'')]"
  by (simp add: run_evals mini_evals str_evals)

text \<open>
  Claim C6, amended: for every source \<^verbatim>\<open>e\<close> whose stripped text parses to a single
  expression statement \<^verbatim>\<open>s\<close>, with no side effects (\<^verbatim>\<open>eval\<close> of \<^verbatim>\<open>ast.unparse(s)\<close>
  returns a value and leaves the world as it was), whose value is true (the test
  \<^verbatim>\<open>if result:\<close> returns \<^verbatim>\<open>True\<close>) and for which \<^verbatim>\<open>str(value)\<close> returns, the run
  without confirmation yields the single reply
  \<^verbatim>\<open>">>> " + ast.unparse(s) + "\n" + str(value) + "\n"\<close>; in particular \<^verbatim>\<open>1 + 1\<close>
  yields \<^verbatim>\<open>">>> 1 + 1\n2\n"\<close>. Where the truth test or \<^verbatim>\<open>str\<close> raises, the code
  reports the exception and aborts: the statement says nothing there.
\<close>

theorem execute_python_expression_transcript:
  assumes "ast_parse rt (strip e) = Parsed [s]"
    and "node_class rt s = Expr"
    and "py_eval rt (ast_unparse rt s) w = (Returned v, w)"
    and "py_bool rt v w = (Returned True, w1)"
    and "py_str rt v w1 = (Returned shown, w2)"
  shows "execute_python rt e False w =
           Run [Message ''system''
                  (''>>> '' @ ast_unparse rt s @ ''\<newline>'' @ shown @ ''\<newline>'')] None w2"
  using assms by (simp add: execute_python_single_truthy uses_exec_def)

theorem execute_python_expression_transcript_witness:
  "ast_parse (mini_py no_shell) (strip ''1 + 1'') = Parsed [ExprStmt (Add (Num 1) (Num 1))]
   \<and> node_class (mini_py no_shell) (ExprStmt (Add (Num 1) (Num 1))) = Expr
   \<and> py_eval (mini_py no_shell) (ast_unparse (mini_py no_shell) (ExprStmt (Add (Num 1) (Num 1)))) (world0 [])
       = (Returned (IntV 2), world0 [])
   \<and> py_bool (mini_py no_shell) (IntV 2) (world0 []) = (Returned True, world0 [])
   \<and> py_str (mini_py no_shell) (IntV 2) (world0 []) = (Returned ''2'', world0 [])
   \<and> execute_python (mini_py no_shell) ''1 + 1'' False (world0 []) =
       Run [Message ''system'' ''>>> 1 + 1\<newline>2\<newline>''] None (world0 [])"
proof -
  have p: "ast_parse (mini_py no_shell) (strip ''1 + 1'') = Parsed [ExprStmt (Add (Num 1) (Num 1))]"
    by (simp add: mini_evals str_evals)
  have c: "node_class (mini_py no_shell) (ExprStmt (Add (Num 1) (Num 1))) = Expr"
    by (simp add: mini_py_def)
  have v: "py_eval (mini_py no_shell) (ast_unparse (mini_py no_shell) (ExprStmt (Add (Num 1) (Num 1)))) (world0 [])
       = (Returned (IntV 2), world0 [])"
    by (simp add: mini_evals str_evals)
  have b: "py_bool (mini_py no_shell) (IntV 2) (world0 []) = (Returned True, world0 [])"
    by (simp add: mini_py_def)
  have t: "py_str (mini_py no_shell) (IntV 2) (world0 []) = (Returned ''2'', world0 [])"
    by (simp add: mini_py_def str_evals str_of_nat.simps)
  show ?thesis
    using p c v b t execute_python_expression_transcript [OF p c v b t]
    by (simp add: mini_py_def str_evals str_of_nat.simps)
qed



text \<open>
  Claim C9: the source \<^verbatim>\<open>print(1)\<close>, run without confirmation, yields the single
  reply \<^verbatim>\<open>">>> print(1)\n"\<close>. The statement is an expression statement, so it goes
  to \<^verbatim>\<open>eval\<close>; the call returns \<^verbatim>\<open>None\<close>, whose truth test returns \<^verbatim>\<open>False\<close>, so
  no value line is added (what it prints goes to the terminal, outside the reply).
\<close>

theorem print_statement_transcript:
  assumes "ast_parse rt ''print(1)'' = Parsed [s]"
    and "node_class rt s = Expr"
    and "ast_unparse rt s = ''print(1)''"
    and "py_eval rt ''print(1)'' w = (Returned v, w')"
    and "py_bool rt v w' = (Returned False, w'')"
  shows "execute_python rt ''print(1)'' False w =
           Run [Message ''system'' ''>>> print(1)\<newline>''] None w''"
proof -
  have "strip ''print(1)'' = ''print(1)''"
    by (simp add: str_evals)
  with assms show ?thesis
    by (simp add: execute_python_single_falsy [where v = v and ?w1.0 = w'] uses_exec_def)
qed

theorem print_statement_transcript_witness:
  "ast_parse (mini_py no_shell) ''print(1)'' = Parsed [ExprStmt (Print (Num 1))]
   \<and> node_class (mini_py no_shell) (ExprStmt (Print (Num 1))) = Expr
   \<and> ast_unparse (mini_py no_shell) (ExprStmt (Print (Num 1))) = ''print(1)''
   \<and> py_eval (mini_py no_shell) ''print(1)'' (world0 []) =
       (Returned NoneV, (world0 [])\<lparr>tty := [Printed ''1'']\<rparr>)
   \<and> py_bool (mini_py no_shell) NoneV ((world0 [])\<lparr>tty := [Printed ''1'']\<rparr>) =
       (Returned False, (world0 [])\<lparr>tty := [Printed ''1'']\<rparr>)
   \<and> execute_python (mini_py no_shell) ''print(1)'' False (world0 []) =
       Run [Message ''system'' ''>>> print(1)\<newline>''] None ((world0 [])\<lparr>tty := [Printed ''1'']\<rparr>)"
proof -
  let ?rt = "mini_py no_shell"
  have p: "ast_parse ?rt ''print(1)'' = Parsed [ExprStmt (Print (Num 1))]"
    by (simp add: mini_evals)
  have c: "node_class ?rt (ExprStmt (Print (Num 1))) = Expr"
    by (simp add: mini_py_def)
  have u: "ast_unparse ?rt (ExprStmt (Print (Num 1))) = ''print(1)''"
    by (simp add: mini_py_def str_of_nat.simps)
  have e: "py_eval ?rt ''print(1)'' (world0 []) =
             (Returned NoneV, (world0 [])\<lparr>tty := [Printed ''1'']\<rparr>)"
    by (simp add: mini_evals str_evals str_of_nat.simps)
  have b: "py_bool ?rt NoneV ((world0 [])\<lparr>tty := [Printed ''1'']\<rparr>) =
             (Returned False, (world0 [])\<lparr>tty := [Printed ''1'']\<rparr>)"
    by (simp add: mini_py_def)
  from p c u e b print_statement_transcript [OF p c u e b] show ?thesis
    by simp
qed

text \<open>
  Claim C10: the source \<^verbatim>\<open>a = 2\<close>, newline, \<^verbatim>\<open>a\<close>, run without confirmation,
  yields the single reply \<^verbatim>\<open>">>> a = 2\n>>> a\n2\n"\<close>: the expression is evaluated
  in the world that the assignment left, where \<^verbatim>\<open>a\<close> is bound to 2, and its value
  is true and is written as \<^verbatim>\<open>2\<close>.
\<close>

theorem binding_persists:
  assumes "ast_parse rt ''a = 2\<newline>a'' = Parsed [s1, s2]"
    and "node_class rt s1 = Assign" and "ast_unparse rt s1 = ''a = 2''"
    and "node_class rt s2 = Expr" and "ast_unparse rt s2 = ''a''"
    and "py_exec rt ''a = 2'' w = ((Returned (), []), w1)"
    and "py_eval rt ''a'' w1 = (Returned v, w2)"
    and "py_bool rt v w2 = (Returned True, w3)" and "py_str rt v w3 = (Returned ''2'', w4)"
  shows "execute_python rt ''a = 2\<newline>a'' False w =
           Run [Message ''system'' ''>>> a = 2\<newline>>>> a\<newline>2\<newline>''] None w4"
proof -
  have "strip ''a = 2\<newline>a'' = ''a = 2\<newline>a''"
    by (simp add: str_evals)
  with assms show ?thesis
    by (simp add: execute_python_no_ask uses_exec_def strip_def)
qed

theorem binding_persists_witness:
  "ast_parse (mini_py no_shell) ''a = 2\<newline>a'' = Parsed [AssignStmt ''a'' (Num 2), ExprStmt (Name ''a'')]
   \<and> py_exec (mini_py no_shell) ''a = 2'' (world0 []) =
       ((Returned (), []), (world0 [])\<lparr>locals_env := [''a'' \<mapsto> IntV 2]\<rparr>)
   \<and> py_eval (mini_py no_shell) ''a'' ((world0 [])\<lparr>locals_env := [''a'' \<mapsto> IntV 2]\<rparr>) =
       (Returned (IntV 2), (world0 [])\<lparr>locals_env := [''a'' \<mapsto> IntV 2]\<rparr>)
   \<and> execute_python (mini_py no_shell) ''a = 2\<newline>a'' False (world0 []) =
       Run [Message ''system'' ''>>> a = 2\<newline>>>> a\<newline>2\<newline>''] None
         ((world0 [])\<lparr>locals_env := [''a'' \<mapsto> IntV 2]\<rparr>)"
proof -
  let ?rt = "mini_py no_shell"
  let ?w1 = "(world0 [])\<lparr>locals_env := [''a'' \<mapsto> IntV 2]\<rparr>"
  have p: "ast_parse ?rt ''a = 2\<newline>a'' = Parsed [AssignStmt ''a'' (Num 2), ExprStmt (Name ''a'')]"
    by (simp add: mini_evals)
  have c1: "node_class ?rt (AssignStmt ''a'' (Num 2)) = Assign"
    and u1: "ast_unparse ?rt (AssignStmt ''a'' (Num 2)) = ''a = 2''"
    and c2: "node_class ?rt (ExprStmt (Name ''a'')) = Expr"
    and u2: "ast_unparse ?rt (ExprStmt (Name ''a'')) = ''a''"
    by (simp_all add: mini_py_def str_of_nat.simps)
  have x: "py_exec ?rt ''a = 2'' (world0 []) = ((Returned (), []), ?w1)"
    by (simp add: mini_evals)
  have e: "py_eval ?rt ''a'' ?w1 = (Returned (IntV 2), ?w1)"
    by (simp add: mini_evals)
  have b: "py_bool ?rt (IntV 2) ?w1 = (Returned True, ?w1)"
    and t: "py_str ?rt (IntV 2) ?w1 = (Returned ''2'', ?w1)"
    by (simp_all add: mini_py_def str_evals str_of_nat.simps)
  from p x e binding_persists [OF p c1 u1 c2 u2 x e b t] show ?thesis
    by simp
qed

section \<open>The shell executor\<close>

text \<open>
  Claim C8: whenever \<^verbatim>\<open>_execute_shell\<close> runs the command (confirmation is off,
  or the answer is \<^verbatim>\<open>y\<close>, \<^verbatim>\<open>yes\<close> in any case, or empty), its single reply is
  the header with the command, then the fenced output section exactly when the
  stripped standard output is not empty, then the fenced error section exactly when
  the stripped standard error is not empty, then \<^verbatim>\<open>No output\<close> when both are
  empty, and at the end \<^verbatim>\<open>Return code: <n>\<close> with the exit code when it is not
  zero, \<^verbatim>\<open>Ran successfully\<close> when it is.
\<close>

theorem execute_shell_report:
  fixes rt :: "('s, 'v) runtime"
  assumes gate: "ask \<longrightarrow> stdin w = a # rest \<and> py_lower a \<in> set [''y'', ''Y'', [], ''yes'']"
  shows "let cmd = (if startswith (strip cmd0) ''$ '' then drop (length ''$ '') (strip cmd0) else strip cmd0);
             w1 = (if ask
                   then w\<lparr>tty := tty w @
                            [Printed (colored rt ''Preview'' ''white'' [] [''bold'']),
                             Printed (''$ '' @ colored rt cmd ''light_yellow'' [] []),
                             Prompted (colored rt (EMOJI_WARN @ '' Execute command in terminal? (Y/n) '')
                                         ''red'' ''on_light_yellow'' [])],
                          stdin := rest\<rparr>
                   else w);
             p = fst (subprocess_run rt cmd w1);
             out = strip (stdout p);
             err = strip (stderr p)
         in execute_shell rt cmd0 ask w =
              Run [Message ''system''
                    (''Ran command:\<newline>```bash\<newline>'' @ cmd @ ''\<newline>```\<newline>\<newline>''
                     @ (if out \<noteq> [] then ''Output:\<newline>\<newline>```bash\<newline>'' @ out @ ''\<newline>```\<newline>\<newline>'' else [])
                     @ (if err \<noteq> [] then ''Error:\<newline>\<newline>```bash\<newline>'' @ err @ ''\<newline>```\<newline>\<newline>'' else [])
                     @ (if out = [] \<and> err = [] then ''No output\<newline>\<newline>'' else [])
                     @ (if returncode p \<noteq> 0 then ''Return code: '' @ str_of_int (returncode p)
                        else ''Ran successfully''))]
                  None (snd (subprocess_run rt cmd w1))"
proof (cases ask)
  case True
  with gate have in1: "stdin w = a # rest" and yes: "py_lower a \<in> set [''y'', ''Y'', [], ''yes'']"
    by simp_all
  show ?thesis
    using True in1 yes
    unfolding execute_shell_def Let_def
    by (simp add: input_def print_def print_preview_def split_beta)
next
  case False
  then show ?thesis
    unfolding execute_shell_def Let_def
    by (simp add: split_beta)
qed

theorem execute_shell_report_witness:
  "stdin (world0 [''Y'']) = ''Y'' # [] \<and> py_lower ''Y'' \<in> set [''y'', ''Y'', [], ''yes'']
   \<and> replies (execute_shell (mini_py demo_shell) ''$ ls a.txt b'' True (world0 [''Y''])) =
     [Message ''system''
        (''Ran command:\<newline>```bash\<newline>ls a.txt b\<newline>```\<newline>\<newline>''
         @ ''Output:\<newline>\<newline>```bash\<newline>a.txt\<newline>```\<newline>\<newline>''
         @ ''Error:\<newline>\<newline>```bash\<newline>ls: b: No such file or directory\<newline>```\<newline>\<newline>''
         @ ''Return code: 2'')]"
  using execute_shell_report [of True "world0 [''Y'']" "''Y''" "[]" "''$ ls a.txt b''" "mini_py demo_shell"]
  by (simp add: world0_def mini_py_def demo_shell_def str_evals Let_def str_of_nat.simps)

end
